theory Spec2Isabelle
  imports Main "HOL-Library.Char_ord" "HOL-Library.List_Lexorder" "HOL-Library.Product_Lexorder"
begin

section \<open>Characters and strings\<close>

text \<open>
  A Python string is a sequence of code points. The model reads a string as a list of
  \<open>char\<close>, the code points below 256, and classifies each of them as Python does:
  \<open>isupper\<close>, \<open>islower\<close>, \<open>isdigit\<close>, \<open>isalnum\<close> and \<open>isspace\<close> are
  \<open>str.isupper\<close>, \<open>str.islower\<close>, \<open>str.isdigit\<close>, \<open>str.isalnum\<close> and
  \<open>str.isspace\<close> on one character, and \<open>lower\<close> is \<open>str.lower\<close>. In this range the
  uppercase letters are A-Z and U+00C0-U+00DE without the multiplication sign, and
  lowering one of them adds 32 to its code point; the lowercase letters are a-z, the
  ordinal indicators, the micro sign and U+00DF-U+00FF without the division sign; the
  digits include the superscripts one, two and three; the fractions are alphanumeric.
\<close>

definition in_range :: "nat \<Rightarrow> nat \<Rightarrow> char \<Rightarrow> bool" where
  "in_range lo hi c = (lo \<le> (of_char c :: nat) \<and> (of_char c :: nat) \<le> hi)"

definition isupper :: "char \<Rightarrow> bool" where
  "isupper c = (in_range 65 90 c \<or> in_range 192 214 c \<or> in_range 216 222 c)"

definition islower :: "char \<Rightarrow> bool" where
  "islower c =
     (in_range 97 122 c \<or> in_range 170 170 c \<or> in_range 181 181 c \<or> in_range 186 186 c \<or>
      in_range 223 246 c \<or> in_range 248 255 c)"

definition isdigit :: "char \<Rightarrow> bool" where
  "isdigit c = (in_range 48 57 c \<or> in_range 178 179 c \<or> in_range 185 185 c)"

definition isalnum :: "char \<Rightarrow> bool" where
  "isalnum c = (isupper c \<or> islower c \<or> isdigit c \<or> in_range 188 190 c)"

definition isspace :: "char \<Rightarrow> bool" where
  "isspace c = (in_range 9 13 c \<or> in_range 28 32 c \<or> in_range 133 133 c \<or> in_range 160 160 c)"

definition lower :: "char \<Rightarrow> char" where
  "lower c = (if isupper c then char_of (of_char c + (32 :: nat)) else c)"

text \<open>
  \<open>str.upper\<close> on one character gives a string: the sharp s becomes \<open>SS\<close>. The
  uppercase forms of the micro sign and of U+00FF lie above the range of \<open>char\<close>; the
  generator applies \<open>upper\<close> only to characters that a regular expression has restricted
  to 0-9, A-Z and a-z before.
\<close>

definition upper :: "char \<Rightarrow> string" where
  "upper c =
     (if in_range 97 122 c \<or> in_range 224 246 c \<or> in_range 248 254 c
      then [char_of (of_char c - (32 :: nat))]
      else if in_range 223 223 c then ''SS''
      else [c])"

text \<open>The characters of the regular expression class \<open>[0-9A-Za-z_]\<close>.\<close>

definition is_ascii_word :: "char \<Rightarrow> bool" where
  "is_ascii_word c = (in_range 48 57 c \<or> in_range 65 90 c \<or> in_range 97 122 c \<or> c = CHR ''_'')"

section \<open>Identifier utilities\<close>

text \<open>
  \<open>camel_to_snake\<close>: the loop over \<open>enumerate(name)\<close> appends to \<open>out\<close> either an
  optional underscore and the lowered character, or the character itself; the result is
  the concatenation of what each index appends.
\<close>

definition camel_to_snake_at :: "string \<Rightarrow> nat \<Rightarrow> string" where
  "camel_to_snake_at name i =
     (let c = name ! i in
      if isupper c then
        (if 0 < i \<and> (islower (name ! (i - 1)) \<or> (i + 1 < length name \<and> islower (name ! (i + 1))))
         then ''_'' else '''') @ [lower c]
      else [c])"

definition camel_to_snake :: "string \<Rightarrow> string" where
  "camel_to_snake name = concat (map (camel_to_snake_at name) [0..<length name])"

text \<open>The reserved words of the target language, \<open>CPP_KEYWORDS\<close>.\<close>

definition CPP_KEYWORDS :: "string list" where
  "CPP_KEYWORDS =
    [''alignas'', ''alignof'', ''and'', ''and_eq'', ''asm'', ''auto'', ''bitand'', ''bitor'', ''bool'',
     ''break'', ''case'', ''catch'', ''char'', ''char8_t'', ''char16_t'', ''char32_t'', ''class'',
     ''compl'', ''concept'', ''const'', ''consteval'', ''constexpr'', ''constinit'', ''const_cast'',
     ''continue'', ''co_await'', ''co_return'', ''co_yield'', ''decltype'', ''default'', ''delete'',
     ''do'', ''double'', ''dynamic_cast'', ''else'', ''enum'', ''explicit'', ''export'', ''extern'',
     ''false'', ''float'', ''for'', ''friend'', ''goto'', ''if'', ''inline'', ''int'', ''long'',
     ''mutable'', ''namespace'', ''new'', ''noexcept'', ''not'', ''not_eq'', ''nullptr'', ''operator'',
     ''or'', ''or_eq'', ''private'', ''protected'', ''public'', ''register'', ''reinterpret_cast'',
     ''requires'', ''return'', ''short'', ''signed'', ''sizeof'', ''static'', ''static_assert'',
     ''static_cast'', ''struct'', ''switch'', ''template'', ''this'', ''thread_local'', ''throw'',
     ''true'', ''try'', ''typedef'', ''typeid'', ''typename'', ''union'', ''unsigned'', ''using'',
     ''virtual'', ''void'', ''volatile'', ''wchar_t'', ''while'', ''xor'', ''xor_eq'']"

text \<open>
  What the source can raise: a missing dictionary key, an unsupported type kind, and
  \<open>text[0]\<close> on an empty string.
\<close>

datatype error = KeyError string | ValueError string | IndexError

definition ident_char :: "char \<Rightarrow> char" where
  "ident_char c = (if isalnum c \<or> c = CHR ''_'' then c else CHR ''_'')"

definition strip_underscores :: "string \<Rightarrow> string" where
  "strip_underscores s =
     rev (dropWhile (\<lambda>c. c = CHR ''_'') (rev (dropWhile (\<lambda>c. c = CHR ''_'') s)))"

definition sanitize_identifier :: "string \<Rightarrow> string \<Rightarrow> error + (string \<times> bool)" where
  "sanitize_identifier name fallback =
     (let text = strip_underscores (map ident_char name);
          text = (if text = [] then fallback else text)
      in case text of
           [] \<Rightarrow> Inl IndexError
         | c # _ \<Rightarrow>
             (let text = (if isdigit c then ''_'' @ text else text);
                  keyword_hit = (text \<in> set CPP_KEYWORDS)
              in Inr (if keyword_hit then text @ ''_'' else text, keyword_hit)))"

definition sanitize_type_identifier :: "string \<Rightarrow> string \<Rightarrow> error + string" where
  "sanitize_type_identifier name fallback =
     (let text = map ident_char name;
          text = (if text = [] then fallback else text)
      in case text of
           [] \<Rightarrow> Inl IndexError
         | c # _ \<Rightarrow>
             (let text = (if isdigit c then ''T_'' @ text else text);
                  text = (if take 1 text = ''_'' then ''Lsp'' @ text else text)
              in Inr (if text \<in> set CPP_KEYWORDS then text @ ''_'' else text)))"

text \<open>\<open>str(n)\<close> for a natural number: its decimal digits.\<close>

fun str_nat :: "nat \<Rightarrow> string" where
  "str_nat n =
     (if n < 10 then [char_of (48 + n)] else str_nat (n div 10) @ [char_of (48 + n mod 10)])"

declare str_nat.simps [simp del]


text \<open>
  Two readings of the specification's sentence on \<open>camel_to_snake\<close>, to compare the code
  with. \<open>snake_walk\<close> walks the string with the previous character at hand, gives no
  underscore to a character that has no predecessor, replaces an uppercase letter by its
  lowercase form and keeps every other character; \<open>claimed_camel_to_snake\<close> is the
  sentence word for word: an underscore in front of every uppercase letter that is preceded
  by a lowercase letter or followed by one, at every position, then everything lowered.
\<close>

fun snake_walk :: "char option \<Rightarrow> string \<Rightarrow> string" where
  "snake_walk prev [] = []"
| "snake_walk prev (c # cs) =
     (if isupper c \<and>
         (case prev of None \<Rightarrow> False
          | Some p \<Rightarrow> islower p \<or> (case cs of [] \<Rightarrow> False | d # _ \<Rightarrow> islower d))
      then ''_'' else '''') @ [if isupper c then lower c else c] @ snake_walk (Some c) cs"

fun claimed_walk :: "char option \<Rightarrow> string \<Rightarrow> string" where
  "claimed_walk prev [] = []"
| "claimed_walk prev (c # cs) =
     (if isupper c \<and>
         ((case prev of None \<Rightarrow> False | Some p \<Rightarrow> islower p) \<or>
          (case cs of [] \<Rightarrow> False | d # _ \<Rightarrow> islower d))
      then ''_'' else '''') @ [lower c] @ claimed_walk (Some c) cs"

definition claimed_camel_to_snake :: "string \<Rightarrow> string" where
  "claimed_camel_to_snake name = claimed_walk None name"
section \<open>Name map\<close>

text \<open>
  \<open>build_name_map\<close> tries \<open>base\<close>, \<open>base_2\<close>, \<open>base_3\<close>, ... until the candidate
  is unused. The loop ends because the decimal rendering of numbers is injective, so each
  round passes a different element of the finite set \<open>used\<close>.
\<close>

definition nat_of_str :: "string \<Rightarrow> nat" where
  "nat_of_str s = foldl (\<lambda>a c. 10 * a + (of_char c - 48)) 0 s"

lemma nat_of_str_str_nat: "nat_of_str (str_nat n) = n"
proof (induction n rule: str_nat.induct)
  case (1 n)
  show ?case
  proof (cases "n < 10")
    case True
    then show ?thesis by (simp add: str_nat.simps[of n] nat_of_str_def)
  next
    case False
    with 1 show ?thesis
      by (simp add: str_nat.simps[of n] nat_of_str_def)
  qed
qed

lemma str_nat_inj: "str_nat a = str_nat b \<Longrightarrow> a = b"
  by (metis nat_of_str_str_nat)

definition later_candidates :: "string \<Rightarrow> string list \<Rightarrow> nat \<Rightarrow> string set" where
  "later_candidates base used s = {u \<in> set used. \<exists>k\<ge>s. u = base @ ''_'' @ str_nat k}"

lemma later_candidates_step:
  "later_candidates base used (Suc s) \<subseteq> later_candidates base used s - {base @ ''_'' @ str_nat s}"
proof
  fix u
  assume "u \<in> later_candidates base used (Suc s)"
  then obtain k where k: "u \<in> set used" "Suc s \<le> k" "u = base @ ''_'' @ str_nat k"
    by (auto simp: later_candidates_def)
  then have "s \<le> k" and "k \<noteq> s" by simp_all
  then have "u \<noteq> base @ ''_'' @ str_nat s"
    using k(3) str_nat_inj by auto
  moreover have "u \<in> later_candidates base used s"
    unfolding later_candidates_def using k(1,3) \<open>s \<le> k\<close> by blast
  ultimately show "u \<in> later_candidates base used s - {base @ ''_'' @ str_nat s}"
    by simp
qed

lemma later_candidates_card:
  "card (later_candidates base used (Suc s)) +
     (if base @ ''_'' @ str_nat s \<in> set used then 1 else 0)
   \<le> card (later_candidates base used s)"
proof -
  have fin: "finite (later_candidates base used s)"
    by (simp add: later_candidates_def)
  show ?thesis
  proof (cases "base @ ''_'' @ str_nat s \<in> set used")
    case True
    then have mem: "base @ ''_'' @ str_nat s \<in> later_candidates base used s"
      by (auto simp: later_candidates_def)
    have "card (later_candidates base used (Suc s))
        \<le> card (later_candidates base used s - {base @ ''_'' @ str_nat s})"
      using later_candidates_step fin by (meson card_mono finite_Diff)
    also have "\<dots> = card (later_candidates base used s) - 1"
      using mem fin by simp
    finally have "card (later_candidates base used (Suc s))
        \<le> card (later_candidates base used s) - 1" .
    moreover have "0 < card (later_candidates base used s)"
      using mem fin by (auto simp: card_gt_0_iff)
    ultimately show ?thesis using True by simp
  next
    case False
    have "later_candidates base used (Suc s) \<subseteq> later_candidates base used s"
      using later_candidates_step by blast
    then show ?thesis using False fin by (simp add: card_mono)
  qed
qed

text \<open>
  The \<open>while candidate in used\<close> loop. The set \<open>used\<close> is kept as the list of the
  identifiers handed out so far.
\<close>

function build_name_map_while :: "string \<Rightarrow> string list \<Rightarrow> string \<Rightarrow> nat \<Rightarrow> string" where
  "build_name_map_while base used candidate suffix =
     (if candidate \<in> set used
      then build_name_map_while base used (base @ ''_'' @ str_nat suffix) (suffix + 1)
      else candidate)"
  by pat_completeness auto
termination
proof (relation "measure (\<lambda>(base, used, candidate, suffix).
          card (later_candidates base used suffix) + (if candidate \<in> set used then 1 else 0))")
  show "wf (measure (\<lambda>(base, used, candidate, suffix).
          card (later_candidates base used suffix) + (if candidate \<in> set used then 1 else 0)))"
    by simp
next
  fix base :: string and used :: "string list" and candidate :: string and suffix :: nat
  assume "candidate \<in> set used"
  then show "((base, used, base @ ''_'' @ str_nat suffix, suffix + 1), base, used, candidate, suffix)
      \<in> measure (\<lambda>(base, used, candidate, suffix).
          card (later_candidates base used suffix) + (if candidate \<in> set used then 1 else 0))"
    using later_candidates_card[of base used suffix] by simp
qed

declare build_name_map_while.simps [simp del]

text \<open>
  The \<open>for original in sorted(definition_names)\<close> loop, with the dictionary \<open>out\<close>
  and the set \<open>used\<close> passed along. Python orders strings by code point,
  lexicographically, which is the order of \<open>string\<close> here.
\<close>

fun build_name_map_loop ::
  "string list \<Rightarrow> (string \<rightharpoonup> string) \<Rightarrow> string list \<Rightarrow> error + (string \<rightharpoonup> string)" where
  "build_name_map_loop [] out used = Inr out"
| "build_name_map_loop (original # rest) out used =
     (case sanitize_type_identifier original ''Type'' of
        Inl e \<Rightarrow> Inl e
      | Inr base \<Rightarrow>
          (let candidate = build_name_map_while base used base 2
           in build_name_map_loop rest (out(original \<mapsto> candidate)) (candidate # used)))"

definition build_name_map :: "string list \<Rightarrow> error + (string \<rightharpoonup> string)" where
  "build_name_map definition_names = build_name_map_loop (sort definition_names) Map.empty []"


section \<open>Schema model\<close>

text \<open>
  A type expression is a JSON object in the source, read through its \<open>kind\<close>. The
  constructors are the kinds the generator knows, each with the fields it reads;
  \<open>TOther\<close> is an object of any other kind, which \<open>render_type\<close> refuses.
\<close>

datatype 't LiteralProperty =
  LiteralProperty (lp_name: string) (lp_type: 't) (lp_optional: bool)

datatype TypeExpr =
    TBase string
  | TReference string
  | TArray TypeExpr
  | TMap TypeExpr TypeExpr
  | TTuple "TypeExpr list"
  | TOr "TypeExpr list"
  | TAnd "TypeExpr list"
  | TLiteral "TypeExpr LiteralProperty list"
  | TStringLiteral string
  | TIntegerLiteral int
  | TBooleanLiteral bool
  | TOther string

fun kind :: "TypeExpr \<Rightarrow> string" where
  "kind (TBase _) = ''base''"
| "kind (TReference _) = ''reference''"
| "kind (TArray _) = ''array''"
| "kind (TMap _ _) = ''map''"
| "kind (TTuple _) = ''tuple''"
| "kind (TOr _) = ''or''"
| "kind (TAnd _) = ''and''"
| "kind (TLiteral _) = ''literal''"
| "kind (TStringLiteral _) = ''stringLiteral''"
| "kind (TIntegerLiteral _) = ''integerLiteral''"
| "kind (TBooleanLiteral _) = ''booleanLiteral''"
| "kind (TOther k) = k"

text \<open>\<open>type_expr.get("name")\<close>: only base and reference objects carry a name.\<close>

fun get_name :: "TypeExpr \<Rightarrow> string option" where
  "get_name (TBase n) = Some n"
| "get_name (TReference n) = Some n"
| "get_name _ = None"

record DocInfo =
  documentation :: "string option"
  since :: "string option"
  since_tags :: "string list"
  deprecated :: "string option"
  proposed :: bool

record PropertyDef =
  prop_name :: string
  prop_type_expr :: TypeExpr
  prop_optional :: bool
  prop_doc :: DocInfo

record StructDef =
  struct_name :: string
  parents :: "string list"
  properties :: "PropertyDef list"
  struct_doc :: DocInfo

datatype EnumValue = StrValue string | IntValue int

record EnumValueDef =
  value_name :: string
  value_value :: EnumValue
  value_doc :: DocInfo

record EnumDef =
  enum_name :: string
  enum_type_expr :: TypeExpr
  enum_values :: "EnumValueDef list"
  supports_custom_values :: bool
  enum_doc :: DocInfo

record AliasDef =
  alias_name :: string
  alias_type_expr :: TypeExpr
  alias_doc :: DocInfo

record RequestDef =
  req_method :: string
  req_type_name :: "string option"
  req_params :: "TypeExpr option"
  req_result :: "TypeExpr option"
  req_doc :: DocInfo

record NotificationDef =
  note_method :: string
  note_type_name :: "string option"
  note_params :: "TypeExpr option"
  note_doc :: DocInfo

record ExtraParamDef =
  extra_name :: string
  extra_method :: string

text \<open>
  The dictionaries of \<open>SchemaModel\<close> are association lists in insertion order; a lookup
  is \<open>map_of\<close>, and \<open>keys()\<close> is the list of first components.
\<close>

record SchemaModel =
  structures :: "(string \<times> StructDef) list"
  enumerations :: "(string \<times> EnumDef) list"
  aliases :: "(string \<times> AliasDef) list"
  requests :: "RequestDef list"
  notifications :: "NotificationDef list"

record FlattenedProperty =
  flat_prop :: PropertyDef
  declared_in :: string

record MemberDef =
  cxx_type :: string
  base_name :: string
  comments :: "string list"
  default_value :: "string option"

text \<open>\<open>str(n)\<close> for an integer, and \<open>str(value.value)\<close> for an enumeration value.\<close>

definition str_int :: "int \<Rightarrow> string" where
  "str_int i = (if i < 0 then ''-'' @ str_nat (nat (- i)) else str_nat (nat i))"

fun str_value :: "EnumValue \<Rightarrow> string" where
  "str_value (StrValue s) = s"
| "str_value (IntValue i) = str_int i"

text \<open>\<open>sep.join(xs)\<close>.\<close>

fun join :: "string \<Rightarrow> string list \<Rightarrow> string" where
  "join sep [] = []"
| "join sep [x] = x"
| "join sep (x # y # ys) = x @ sep @ join sep (y # ys)"

section \<open>Text utilities\<close>

text \<open>
  \<open>str.rstrip()\<close>, \<open>str.strip()\<close> and \<open>str.splitlines()\<close>. The line boundaries
  below U+0100 are LF, CR, CR LF, VT, FF, FS, GS, RS and NEL; a final line break opens no
  new line.
\<close>

definition rstrip :: "string \<Rightarrow> string" where
  "rstrip s = rev (dropWhile isspace (rev s))"

definition strip :: "string \<Rightarrow> string" where
  "strip s = dropWhile isspace (rstrip s)"

definition is_linebreak :: "char \<Rightarrow> bool" where
  "is_linebreak c = (in_range 10 13 c \<or> in_range 28 30 c \<or> in_range 133 133 c)"

fun splitlines_from :: "string \<Rightarrow> string \<Rightarrow> string list" where
  "splitlines_from cur [] = (if cur = [] then [] else [rev cur])"
| "splitlines_from cur (c # cs) =
     (if is_linebreak c then
        (case cs of
           d # ds \<Rightarrow>
             if (of_char c :: nat) = 13 \<and> (of_char d :: nat) = 10
             then rev cur # splitlines_from [] ds
             else rev cur # splitlines_from [] (d # ds)
         | [] \<Rightarrow> [rev cur])
      else splitlines_from (c # cur) cs)"

definition splitlines :: "string \<Rightarrow> string list" where
  "splitlines s = splitlines_from [] s"

text \<open>
  The regular expressions of the source are sequences of a few kinds of atom, matched
  ignoring case: a literal word, an optional character, a run of characters of a class
  (\<open>\s+\<close>, \<open>[^.\n]*\<close>) of at least a given length, and the word boundary \<open>\b\<close>;
  \<open>\s\<close> is \<open>str.isspace\<close>, and a word character is an alphanumeric one or the
  underscore.
  \<open>match_at atoms text i\<close> says that the atoms match at position \<open>i\<close>, and
  \<open>re_search\<close> that they match somewhere.
\<close>

datatype atom = Lit string | Opt char | Run nat "char \<Rightarrow> bool" | Boundary

definition is_word :: "char \<Rightarrow> bool" where
  "is_word c = (isalnum c \<or> c = CHR ''_'')"

fun match_at :: "atom list \<Rightarrow> string \<Rightarrow> nat \<Rightarrow> bool" where
  "match_at [] text i = True"
| "match_at (Lit w # atoms) text i =
     (i + length w \<le> length text \<and> map lower (take (length w) (drop i text)) = map lower w \<and>
      match_at atoms text (i + length w))"
| "match_at (Opt c # atoms) text i =
     ((i < length text \<and> lower (text ! i) = lower c \<and> match_at atoms text (i + 1)) \<or>
      match_at atoms text i)"
| "match_at (Run lo cls # atoms) text i =
     list_ex (\<lambda>k. match_at atoms text (i + k)) [lo..<Suc (length (takeWhile cls (drop i text)))]"
| "match_at (Boundary # atoms) text i =
     (((0 < i \<and> is_word (text ! (i - 1))) \<noteq> (i < length text \<and> is_word (text ! i))) \<and>
      match_at atoms text i)"

definition re_search :: "atom list \<Rightarrow> string \<Rightarrow> bool" where
  "re_search atoms text = list_ex (match_at atoms text) [0..<Suc (length text)]"

definition SUSPICIOUS_BOOL_PATTERNS :: "atom list list" where
  "SUSPICIOUS_BOOL_PATTERNS =
     [[Lit ''default'', Opt CHR ''s'', Run 1 isspace, Lit ''to'', Run 1 isspace, Lit ''true''],
      [Lit ''default'', Run 1 isspace, Lit ''is'', Run 1 isspace, Lit ''true''],
      [Lit ''true'', Run 1 isspace, Lit ''by'', Run 1 isspace, Lit ''default''],
      [Lit ''if'', Run 1 isspace, Lit ''omitted'',
       Run 0 (\<lambda>c. c \<noteq> CHR ''.'' \<and> (of_char c :: nat) \<noteq> 10), Lit ''true''],
      [Lit ''when'', Run 1 isspace, Lit ''omitted'',
       Run 0 (\<lambda>c. c \<noteq> CHR ''.'' \<and> (of_char c :: nat) \<noteq> 10), Lit ''true'']]"

subsection \<open>Documentation lines\<close>

text \<open>\<open>if not documentation\<close>: the text is absent or empty.\<close>

definition falsy :: "string option \<Rightarrow> bool" where
  "falsy s = (s = None \<or> s = Some [])"

definition split_documentation :: "string option \<Rightarrow> string list" where
  "split_documentation doc_text =
     (case doc_text of
        None \<Rightarrow> []
      | Some text \<Rightarrow> if text = [] then [] else map rstrip (splitlines text))"

definition documentation_mentions_tag :: "string option \<Rightarrow> string \<Rightarrow> bool" where
  "documentation_mentions_tag doc_text tag =
     (case doc_text of
        None \<Rightarrow> False
      | Some text \<Rightarrow>
          text \<noteq> [] \<and> re_search [Boundary, Opt CHR ''@'', Lit tag, Boundary] text)"

definition append_tag_line :: "string list \<Rightarrow> string \<Rightarrow> string list" where
  "append_tag_line lines tag_line = lines @ map rstrip (splitlines tag_line)"

definition pop_blank_lines :: "string list \<Rightarrow> string list" where
  "pop_blank_lines lines = rev (dropWhile (\<lambda>l. l = []) (rev lines))"

definition build_doc_lines :: "DocInfo \<Rightarrow> string list" where
  "build_doc_lines doc =
     (let lines = split_documentation (documentation doc);
          has_since = documentation_mentions_tag (documentation doc) ''since'';
          has_since_tags = documentation_mentions_tag (documentation doc) ''sinceTags'';
          has_deprecated = documentation_mentions_tag (documentation doc) ''deprecated'';
          has_proposed = documentation_mentions_tag (documentation doc) ''proposed'';
          lines = (if \<not> falsy (since doc) \<and> \<not> has_since
                   then append_tag_line lines (''@since '' @ the (since doc)) else lines);
          lines = (if since_tags doc \<noteq> [] \<and> \<not> has_since \<and> \<not> has_since_tags
                   then append_tag_line lines (''@sinceTags '' @ join '', '' (since_tags doc))
                   else lines);
          lines = (if \<not> falsy (deprecated doc) \<and> \<not> has_deprecated
                   then append_tag_line lines (''@deprecated '' @ the (deprecated doc)) else lines);
          lines = (if proposed doc \<and> \<not> has_proposed
                   then append_tag_line lines ''@proposed'' else lines)
      in pop_blank_lines lines)"

definition append_doc :: "string list \<Rightarrow> string \<Rightarrow> string list \<Rightarrow> string list" where
  "append_doc out indent comment_lines =
     out @
     map (\<lambda>line. if line = [] then indent @ ''///'' else indent @ ''/// '' @ line) comment_lines"

subsection \<open>Enumeration member names\<close>

text \<open>
  \<open>re.sub(r"[^0-9A-Za-z_]+", "_", text)\<close>: every maximal run of other characters becomes
  one underscore (\<open>in_run\<close> says that the previous character was replaced already).
\<close>

fun normalize_runs :: "bool \<Rightarrow> string \<Rightarrow> string" where
  "normalize_runs in_run [] = []"
| "normalize_runs in_run (c # cs) =
     (if is_ascii_word c then c # normalize_runs False cs
      else if in_run then normalize_runs True cs
      else CHR ''_'' # normalize_runs True cs)"

text \<open>\<open>text.split(sep)\<close> for a separator of one character.\<close>

fun split_on :: "char \<Rightarrow> string \<Rightarrow> string list" where
  "split_on sep [] = [[]]"
| "split_on sep (c # cs) =
     (if c = sep then [] # split_on sep cs
      else (case split_on sep cs of [] \<Rightarrow> [[c]] | p # ps \<Rightarrow> (c # p) # ps))"

text \<open>\<open>part[:1].upper() + part[1:]\<close>.\<close>

definition capitalize_first :: "string \<Rightarrow> string" where
  "capitalize_first part = concat (map upper (take 1 part)) @ drop 1 part"

definition enum_member_upper_camel :: "string \<Rightarrow> string \<Rightarrow> error + string" where
  "enum_member_upper_camel text fallback =
     (let normalized = normalize_runs False text;
          snake = camel_to_snake normalized;
          parts = filter (\<lambda>part. part \<noteq> []) (split_on CHR ''_'' snake);
          candidate = (if parts \<noteq> [] then concat (map capitalize_first parts) else fallback)
      in case candidate of
           [] \<Rightarrow> Inl IndexError
         | c # _ \<Rightarrow>
             (let candidate = (if isdigit c then ''V'' @ candidate else candidate)
              in Inr (if candidate \<in> set CPP_KEYWORDS then candidate @ ''_'' else candidate)))"

section \<open>Type renderer\<close>

record TypeRenderer =
  r_model :: SchemaModel
  r_name_map :: "string \<rightharpoonup> string"
  r_struct_names :: "string set"
  r_alias_names :: "string set"
  closed_string_enum_names :: "string set"
  closed_string_literal_owner :: "string \<rightharpoonup> string"

text \<open>
  The constructor of \<open>TypeRenderer\<close>. \<open>literal_owner_candidates\<close> maps a literal text to
  the set of closed string enumerations that declare it (a list without repetitions here);
  only the texts with exactly one owner are kept.
\<close>

definition is_closed_string_enum :: "EnumDef \<Rightarrow> bool" where
  "is_closed_string_enum enum_def =
     (get_name (enum_type_expr enum_def) = Some ''string'' \<and> \<not> supports_custom_values enum_def)"

definition setdefault_add :: "(string \<rightharpoonup> string list) \<Rightarrow> string \<Rightarrow> string \<Rightarrow> (string \<rightharpoonup> string list)" where
  "setdefault_add m k v = m(k \<mapsto> List.insert v (case m k of None \<Rightarrow> [] | Some vs \<Rightarrow> vs))"

definition literal_owner_candidates :: "SchemaModel \<Rightarrow> (string \<rightharpoonup> string list)" where
  "literal_owner_candidates model =
     fold (\<lambda>(enum_name, enum_def) m.
             if is_closed_string_enum enum_def
             then fold (\<lambda>v m. setdefault_add m (str_value (value_value v)) enum_name)
                    (enum_values enum_def) m
             else m)
       (enumerations model) Map.empty"

definition new_TypeRenderer :: "SchemaModel \<Rightarrow> (string \<rightharpoonup> string) \<Rightarrow> TypeRenderer" where
  "new_TypeRenderer model name_map =
     \<lparr> r_model = model,
       r_name_map = name_map,
       r_struct_names = set (map fst (structures model)),
       r_alias_names = set (map fst (aliases model)),
       closed_string_enum_names =
         set (map fst (filter (\<lambda>(name, enum_def). is_closed_string_enum enum_def)
                         (enumerations model))),
       closed_string_literal_owner =
         (\<lambda>literal. case literal_owner_candidates model literal of
                       Some [owner] \<Rightarrow> Some owner
                     | _ \<Rightarrow> None) \<rparr>"

text \<open>
  \<open>name_map.get(name, sanitize_type_identifier(name, fallback="Type"))\<close>: Python
  evaluates the default before the lookup.
\<close>

definition name_map_get :: "(string \<rightharpoonup> string) \<Rightarrow> string \<Rightarrow> error + string" where
  "name_map_get name_map ref_name =
     (case sanitize_type_identifier ref_name ''Type'' of
        Inl e \<Rightarrow> Inl e
      | Inr dflt \<Rightarrow> Inr (case name_map ref_name of Some cpp \<Rightarrow> cpp | None \<Rightarrow> dflt))"

fun is_null_arm :: "TypeExpr \<Rightarrow> bool" where
  "is_null_arm (TBase n) = (n = ''null'')"
| "is_null_arm _ = False"

text \<open>
  The second loop of \<open>render_or\<close>: \<open>unique\<close> collects the renderings not seen before,
  \<open>seen\<close> is the set of those collected.
\<close>

fun unique_loop :: "string list \<Rightarrow> string list \<Rightarrow> string set \<Rightarrow> string list" where
  "unique_loop [] unique seen = unique"
| "unique_loop (item # rendered) unique seen =
     (if item \<notin> seen then unique_loop rendered (unique @ [item]) (insert item seen)
      else unique_loop rendered unique seen)"

text \<open>The end of \<open>render_or\<close>, from the renderings and the \<open>saw_null\<close> flag.\<close>

definition render_or_result :: "string list \<Rightarrow> bool \<Rightarrow> string" where
  "render_or_result rendered saw_null =
     (let unique = unique_loop rendered [] {} in
      if saw_null \<and> length unique = 1 then ''nullable<'' @ unique ! 0 @ ''>''
      else
        (let unique = (if saw_null then ''null'' # unique else unique) in
         if unique = [] then ''null''
         else if length unique = 1 then unique ! 0
         else ''variant<'' @ join '', '' unique @ ''>''))"

text \<open>
  \<open>render_type\<close>, with the list comprehensions over \<open>items\<close> (\<open>render_items\<close>) and
  the first loop of \<open>render_or\<close> (\<open>render_or_loop\<close>, which returns \<open>rendered\<close> and
  \<open>saw_null\<close>) as mutually recursive functions over the list. A failing item ends the
  rendering with its error, as the exception does.
\<close>

fun render_type :: "TypeRenderer \<Rightarrow> TypeExpr \<Rightarrow> string \<Rightarrow> string option \<Rightarrow> error + string"
  and render_items :: "TypeRenderer \<Rightarrow> TypeExpr list \<Rightarrow> string \<Rightarrow> string option \<Rightarrow> error + string list"
  and render_or_loop ::
    "TypeRenderer \<Rightarrow> TypeExpr list \<Rightarrow> string \<Rightarrow> string option \<Rightarrow> error + (string list \<times> bool)"
  where
  "render_type r (TBase name) owner current_struct = Inr name"
| "render_type r (TReference ref_name) owner current_struct =
     (if current_struct \<noteq> None \<and> Some ref_name = current_struct then
        (case name_map_get (r_name_map r) ref_name of
           Inl e \<Rightarrow> Inl e
         | Inr cpp_name \<Rightarrow> Inr (''std::shared_ptr<'' @ cpp_name @ ''>''))
      else if ref_name \<in> closed_string_enum_names r then
        (case name_map_get (r_name_map r) ref_name of
           Inl e \<Rightarrow> Inl e
         | Inr enum_cpp \<Rightarrow> Inr (''enum_string<'' @ enum_cpp @ ''>''))
      else name_map_get (r_name_map r) ref_name)"
| "render_type r (TArray element) owner current_struct =
     (case render_type r element (owner @ ''.element'') current_struct of
        Inl e \<Rightarrow> Inl e
      | Inr element \<Rightarrow> Inr (''std::vector<'' @ element @ ''>''))"
| "render_type r (TMap key val) owner current_struct =
     (case render_type r key (owner @ ''.key'') current_struct of
        Inl e \<Rightarrow> Inl e
      | Inr key \<Rightarrow>
          (case render_type r val (owner @ ''.value'') current_struct of
             Inl e \<Rightarrow> Inl e
           | Inr val \<Rightarrow> Inr (''std::map<'' @ key @ '', '' @ val @ ''>'')))"
| "render_type r (TTuple items) owner current_struct =
     (case render_items r items (owner @ ''.tuple_item'') current_struct of
        Inl e \<Rightarrow> Inl e
      | Inr items \<Rightarrow>
          Inr (if items = [] then ''std::tuple<>''
               else ''std::tuple<'' @ join '', '' items @ ''>''))"
| "render_type r (TOr items) owner current_struct =
     (case render_or_loop r items (owner @ ''.or_item'') current_struct of
        Inl e \<Rightarrow> Inl e
      | Inr (rendered, saw_null) \<Rightarrow> Inr (render_or_result rendered saw_null))"
| "render_type r (TAnd items) owner current_struct =
     (case render_items r items (owner @ ''.and_item'') current_struct of
        Inl e \<Rightarrow> Inl e
      | Inr items \<Rightarrow>
          Inr (if length items = 1 then items ! 0
               else ''std::tuple<'' @ join '', '' items @ ''>''))"
| "render_type r (TLiteral _) owner current_struct = Inr ''LspEmptyObject''"
| "render_type r (TStringLiteral literal_value) owner current_struct =
     (case closed_string_literal_owner r literal_value of
        None \<Rightarrow> Inr ''string''
      | Some owner_enum \<Rightarrow>
          if owner_enum \<noteq> [] then
            (case name_map_get (r_name_map r) owner_enum of
               Inl e \<Rightarrow> Inl e
             | Inr enum_cpp \<Rightarrow> Inr (''enum_string<'' @ enum_cpp @ ''>''))
          else Inr ''string'')"
| "render_type r (TIntegerLiteral _) owner current_struct = Inr ''integer''"
| "render_type r (TBooleanLiteral _) owner current_struct = Inr ''boolean''"
| "render_type r (TOther k) owner current_struct =
     Inl (ValueError (''Unsupported type kind: '' @ k @ '' at '' @ owner))"
| "render_items r [] owner current_struct = Inr []"
| "render_items r (item # items) owner current_struct =
     (case render_type r item owner current_struct of
        Inl e \<Rightarrow> Inl e
      | Inr x \<Rightarrow>
          (case render_items r items owner current_struct of
             Inl e \<Rightarrow> Inl e
           | Inr xs \<Rightarrow> Inr (x # xs)))"
| "render_or_loop r [] owner current_struct = Inr ([], False)"
| "render_or_loop r (item # items) owner current_struct =
     (if is_null_arm item then
        (case render_or_loop r items owner current_struct of
           Inl e \<Rightarrow> Inl e
         | Inr (rendered, _) \<Rightarrow> Inr (rendered, True))
      else
        (case render_type r item owner current_struct of
           Inl e \<Rightarrow> Inl e
         | Inr x \<Rightarrow>
             (case render_or_loop r items owner current_struct of
                Inl e \<Rightarrow> Inl e
              | Inr (rendered, saw_null) \<Rightarrow> Inr (x # rendered, saw_null))))"

definition render_or :: "TypeRenderer \<Rightarrow> TypeExpr list \<Rightarrow> string \<Rightarrow> string option \<Rightarrow> error + string" where
  "render_or r items owner current_struct =
     (case render_or_loop r items (owner @ ''.or_item'') current_struct of
        Inl e \<Rightarrow> Inl e
      | Inr (rendered, saw_null) \<Rightarrow> Inr (render_or_result rendered saw_null))"

text \<open>
  Deduplication that keeps first-seen order, as the specification words it: the head stays,
  and its later copies are dropped from the rest.
\<close>

primrec dedup_first :: "string list \<Rightarrow> string list" where
  "dedup_first [] = []"
| "dedup_first (x # xs) = x # filter (\<lambda>y. y \<noteq> x) (dedup_first xs)"

section \<open>Generator\<close>

text \<open>
  The state of a \<open>Generator\<close>: the model, the name map and the renderer, the two caches,
  and the four lists of diagnostics, which are all the diagnostics the generator keeps.
  A dependency-graph node is a pair of a kind (\<open>S\<close>, \<open>E\<close> or \<open>A\<close>) and a name.
\<close>

type_synonym node = "string \<times> string"

record Generator =
  g_model :: SchemaModel
  g_name_map :: "string \<rightharpoonup> string"
  g_renderer :: TypeRenderer
  g_struct_names :: "string set"
  g_enum_names :: "string set"
  g_alias_names :: "string set"
  struct_dep_cache :: "string \<rightharpoonup> node set"
  flattened_property_cache :: "string \<rightharpoonup> FlattenedProperty list"
  keyword_hits :: "string list"
  bool_default_warnings :: "string list"
  member_collision_warnings :: "string list"
  unsafe_override_warnings :: "string list"
  closed_string_enum_literal_members :: "string \<rightharpoonup> (string \<rightharpoonup> string)"

text \<open>
  A \<open>Counter\<close> of member names, and the renaming of a repeated enumeration member:
  the first use keeps the name, the \<open>n\<close>-th gets the suffix \<open>n\<close>.
\<close>

definition dedupe_member :: "(string \<Rightarrow> nat) \<Rightarrow> string \<Rightarrow> string \<times> (string \<Rightarrow> nat)" where
  "dedupe_member used_member_names base_member_name =
     (let dedupe_index = used_member_names base_member_name
      in (if dedupe_index = 0 then base_member_name
          else base_member_name @ str_nat (dedupe_index + 1),
          used_member_names(base_member_name := dedupe_index + 1)))"

fun value_to_member_loop ::
  "EnumValueDef list \<Rightarrow> nat \<Rightarrow> (string \<Rightarrow> nat) \<Rightarrow> (string \<rightharpoonup> string) \<Rightarrow> error + (string \<rightharpoonup> string)" where
  "value_to_member_loop [] index used_member_names value_to_member = Inr value_to_member"
| "value_to_member_loop (v # vs) index used_member_names value_to_member =
     (case enum_member_upper_camel (str_value (value_value v)) (''Value'' @ str_nat (index + 1)) of
        Inl e \<Rightarrow> Inl e
      | Inr base_member_name \<Rightarrow>
          (let (member_name, used_member_names) = dedupe_member used_member_names base_member_name
           in value_to_member_loop vs (index + 1) used_member_names
                (value_to_member(str_value (value_value v) \<mapsto> member_name))))"

fun literal_members_loop ::
  "TypeRenderer \<Rightarrow> SchemaModel \<Rightarrow> string list \<Rightarrow> (string \<rightharpoonup> (string \<rightharpoonup> string)) \<Rightarrow>
   error + (string \<rightharpoonup> (string \<rightharpoonup> string))" where
  "literal_members_loop r model [] members = Inr members"
| "literal_members_loop r model (ename # names) members =
     (if ename \<in> closed_string_enum_names r then
        (case map_of (enumerations model) ename of
           None \<Rightarrow> Inl (KeyError ename)
         | Some enum_def \<Rightarrow>
             (case value_to_member_loop (enum_values enum_def) 0 (\<lambda>_. 0) Map.empty of
                Inl e \<Rightarrow> Inl e
              | Inr value_to_member \<Rightarrow>
                  literal_members_loop r model names (members(ename \<mapsto> value_to_member))))
      else literal_members_loop r model names members)"

definition new_Generator :: "SchemaModel \<Rightarrow> (string \<rightharpoonup> string) \<Rightarrow> error + Generator" where
  "new_Generator model name_map =
     (let r = new_TypeRenderer model name_map
      in case literal_members_loop r model (map fst (enumerations model)) Map.empty of
           Inl e \<Rightarrow> Inl e
         | Inr members \<Rightarrow>
             Inr \<lparr> g_model = model,
                   g_name_map = name_map,
                   g_renderer = r,
                   g_struct_names = set (map fst (structures model)),
                   g_enum_names = set (map fst (enumerations model)),
                   g_alias_names = set (map fst (aliases model)),
                   struct_dep_cache = Map.empty,
                   flattened_property_cache = Map.empty,
                   keyword_hits = [],
                   bool_default_warnings = [],
                   member_collision_warnings = [],
                   unsafe_override_warnings = [],
                   closed_string_enum_literal_members = members \<rparr>)"

section \<open>Enumerations\<close>

definition smallest_unsigned_type :: "int \<Rightarrow> string" where
  "smallest_unsigned_type max_value =
     (if max_value \<le> 0xFF then ''std::uint8_t''
      else if max_value \<le> 0xFFFF then ''std::uint16_t''
      else if max_value \<le> 0xFFFFFFFF then ''std::uint32_t''
      else ''std::uint64_t'')"

definition smallest_signed_type :: "int \<Rightarrow> int \<Rightarrow> string" where
  "smallest_signed_type min_value max_value =
     (if min_value \<ge> - (2 ^ 7) \<and> max_value \<le> 2 ^ 7 - 1 then ''std::int8_t''
      else if min_value \<ge> - (2 ^ 15) \<and> max_value \<le> 2 ^ 15 - 1 then ''std::int16_t''
      else if min_value \<ge> - (2 ^ 31) \<and> max_value \<le> 2 ^ 31 - 1 then ''std::int32_t''
      else ''std::int64_t'')"

text \<open>\<open>min\<close> and \<open>max\<close> of a list that is not empty.\<close>

fun py_min :: "int list \<Rightarrow> int" where
  "py_min [] = 0"
| "py_min (v # vs) = fold min vs v"

fun py_max :: "int list \<Rightarrow> int" where
  "py_max [] = 0"
| "py_max (v # vs) = fold max vs v"

text \<open>\<open>[v.value for v in enum_def.values if isinstance(v.value, int)]\<close>.\<close>

fun int_values :: "EnumValueDef list \<Rightarrow> int list" where
  "int_values [] = []"
| "int_values (v # vs) =
     (case value_value v of IntValue i \<Rightarrow> i # int_values vs | StrValue _ \<Rightarrow> int_values vs)"

text \<open>
  The underlying type that \<open>emit_enum\<close> computes for an enumeration whose base is
  \<open>integer\<close> or \<open>uinteger\<close>.
\<close>

definition enum_underlying :: "EnumDef \<Rightarrow> string \<Rightarrow> string" where
  "enum_underlying enum_def base =
     (if \<not> supports_custom_values enum_def then
        (let vals = int_values (enum_values enum_def) in
         if vals \<noteq> [] then
           (if base = ''integer'' then smallest_signed_type (py_min vals) (py_max vals)
            else smallest_unsigned_type (py_max vals))
         else base)
      else base)"

text \<open>
  \<open>json.dumps\<close> of a string: the quote and the backslash are escaped, the control
  characters have their short or six-character escapes, and so has every character from
  U+007F on; only the characters from the space to the tilde stand for themselves.
\<close>

definition hex_digit :: "nat \<Rightarrow> char" where
  "hex_digit d = (if d < 10 then char_of (48 + d) else char_of (87 + d))"

definition json_escape :: "char \<Rightarrow> string" where
  "json_escape c =
     (let n = (of_char c :: nat) in
      if n = 34 then [CHR 0x5C, CHR 0x22]
      else if n = 92 then [CHR 0x5C, CHR 0x5C]
      else if n = 10 then [CHR 0x5C, CHR ''n'']
      else if n = 13 then [CHR 0x5C, CHR ''r'']
      else if n = 9 then [CHR 0x5C, CHR ''t'']
      else if n = 8 then [CHR 0x5C, CHR ''b'']
      else if n = 12 then [CHR 0x5C, CHR ''f'']
      else if n < 32 \<or> 127 \<le> n then
        [CHR 0x5C, CHR ''u'', CHR ''0'', CHR ''0'', hex_digit (n div 16), hex_digit (n mod 16)]
      else [c])"

definition json_dumps :: "string \<Rightarrow> string" where
  "json_dumps s = [CHR 0x22] @ concat (map json_escape s) @ [CHR 0x22]"

text \<open>
  The three member loops of \<open>emit_enum\<close>, over the values that remain, with the index of
  the first of them, the counter of member names and the lines so far.
\<close>

datatype enum_style = IntegerEnum | ClosedStringEnum | OpenStringEnum

definition enum_member_line ::
  "enum_style \<Rightarrow> EnumValueDef \<Rightarrow> nat \<Rightarrow> bool \<Rightarrow> (string \<Rightarrow> nat) \<Rightarrow> error + (string \<times> (string \<Rightarrow> nat))" where
  "enum_member_line style v index has_next used_member_names =
     (let comma = (if has_next then '','' else '''') in
      case style of
        IntegerEnum \<Rightarrow>
          (case enum_member_upper_camel (value_name v) (''Value'' @ str_nat (index + 1)) of
             Inl e \<Rightarrow> Inl e
           | Inr base_member_name \<Rightarrow>
               (let (member_name, used_member_names) = dedupe_member used_member_names base_member_name
                in Inr (''    '' @ member_name @ '' = '' @ str_value (value_value v) @ comma,
                        used_member_names)))
      | ClosedStringEnum \<Rightarrow>
          (case enum_member_upper_camel (str_value (value_value v)) (''Value'' @ str_nat (index + 1)) of
             Inl e \<Rightarrow> Inl e
           | Inr base_member_name \<Rightarrow>
               (let (member_name, used_member_names) = dedupe_member used_member_names base_member_name
                in Inr (''    '' @ member_name @ comma, used_member_names)))
      | OpenStringEnum \<Rightarrow>
          (case sanitize_identifier (camel_to_snake (value_name v)) (''value_'' @ str_nat index) of
             Inl e \<Rightarrow> Inl e
           | Inr (member_name, _) \<Rightarrow>
               Inr (''    constexpr inline static std::string_view '' @ member_name @ '' = '' @
                    json_dumps (str_value (value_value v)) @ '';'', used_member_names)))"

fun enum_member_loop ::
  "enum_style \<Rightarrow> EnumValueDef list \<Rightarrow> nat \<Rightarrow> (string \<Rightarrow> nat) \<Rightarrow> string list \<Rightarrow> error + string list" where
  "enum_member_loop style [] index used_member_names lines = Inr lines"
| "enum_member_loop style (v # vs) index used_member_names lines =
     (let value_comments = build_doc_lines (value_doc v);
          lines = append_doc lines ''    '' value_comments
      in case enum_member_line style v index (vs \<noteq> []) used_member_names of
           Inl e \<Rightarrow> Inl e
         | Inr (line, used_member_names) \<Rightarrow>
             (let lines = lines @ [line];
                  lines = (if vs \<noteq> [] \<and> (value_comments \<noteq> [] \<or> build_doc_lines (value_doc (hd vs)) \<noteq> [])
                           then lines @ [''''] else lines)
              in enum_member_loop style vs (index + 1) used_member_names lines))"

definition emit_enum_lines :: "Generator \<Rightarrow> string \<Rightarrow> error + string list" where
  "emit_enum_lines g name =
     (case map_of (enumerations (g_model g)) name of
        None \<Rightarrow> Inl (KeyError name)
      | Some enum_def \<Rightarrow>
          (case g_name_map g name of
             None \<Rightarrow> Inl (KeyError name)
           | Some enum_cpp \<Rightarrow>
               (let base = get_name (enum_type_expr enum_def);
                    lines = append_doc [] ''''
                      (build_doc_lines (enum_doc enum_def) @
                       [''supportsCustomValues: '' @
                        (if supports_custom_values enum_def then ''true'' else ''false'')])
                in if base = Some ''integer'' \<or> base = Some ''uinteger'' then
                     (let underlying = enum_underlying enum_def (the base);
                          lines = lines @ [''enum class '' @ enum_cpp @ '' : '' @ underlying @ '' {'']
                      in case enum_member_loop IntegerEnum (enum_values enum_def) 0 (\<lambda>_. 0) lines of
                           Inl e \<Rightarrow> Inl e
                         | Inr lines \<Rightarrow> Inr (lines @ [''};'']))
                   else if base = Some ''string'' then
                     (if supports_custom_values enum_def then
                        (let lines = lines @
                               [''struct '' @ enum_cpp @ '' : std::string {'',
                                ''    using std::string::string;'',
                                ''    using std::string::operator=;''];
                             lines = (if enum_values enum_def \<noteq> [] then lines @ [''''] else lines)
                         in case enum_member_loop OpenStringEnum (enum_values enum_def) 0 (\<lambda>_. 0) lines of
                              Inl e \<Rightarrow> Inl e
                            | Inr lines \<Rightarrow> Inr (lines @ [''};'']))
                      else
                        (let max_value = max (int (length (enum_values enum_def)) - 1) 0;
                             underlying = smallest_unsigned_type max_value;
                             lines = lines @ [''enum class '' @ enum_cpp @ '' : '' @ underlying @ '' {'']
                         in case enum_member_loop ClosedStringEnum (enum_values enum_def) 0 (\<lambda>_. 0) lines of
                              Inl e \<Rightarrow> Inl e
                            | Inr lines \<Rightarrow> Inr (lines @ [''};''])))
                   else
                     Inr (lines @ [''// Unsupported enum base type: '' @
                                   (case base of None \<Rightarrow> ''None'' | Some b \<Rightarrow> b)]))))"

definition emit_enum :: "Generator \<Rightarrow> string \<Rightarrow> error + string" where
  "emit_enum g name =
     (case emit_enum_lines g name of
        Inl e \<Rightarrow> Inl e
      | Inr lines \<Rightarrow> Inr (join [char_of (10 :: nat)] lines))"

text \<open>
  The fixed-width integer types, to state what "narrowest type that fits" means: a value
  fits a signed width \<open>w\<close> when it lies in \<open>[-2^(w-1), 2^(w-1))\<close>, and an unsigned one
  when it lies in \<open>[0, 2^w)\<close>.
\<close>

definition fits_signed :: "nat \<Rightarrow> int \<Rightarrow> bool" where
  "fits_signed w v = (- (2 ^ (w - 1)) \<le> v \<and> v < 2 ^ (w - 1))"

definition fits_unsigned :: "nat \<Rightarrow> int \<Rightarrow> bool" where
  "fits_unsigned w v = (0 \<le> v \<and> v < 2 ^ w)"

definition signed_type :: "nat \<Rightarrow> string" where
  "signed_type w = ''std::int'' @ str_nat w @ ''_t''"

definition unsigned_type :: "nat \<Rightarrow> string" where
  "unsigned_type w = ''std::uint'' @ str_nat w @ ''_t''"

definition widths :: "nat list" where
  "widths = [8, 16, 32, 64]"

section \<open>Example inputs\<close>

text \<open>A renderer for a schema whose only definition is the structure \<open>Node\<close>.\<close>

definition node_renderer :: TypeRenderer where
  "node_renderer =
     \<lparr> r_model = \<lparr> structures = [], enumerations = [], aliases = [], requests = [], notifications = [] \<rparr>,
       r_name_map = [''Node'' \<mapsto> ''Node''],
       r_struct_names = {''Node''},
       r_alias_names = {},
       closed_string_enum_names = {},
       closed_string_literal_owner = Map.empty \<rparr>"

section \<open>Verified properties\<close>

subsection \<open>camel_to_snake\<close>

text \<open>
  The rule of the specification, as a walk over the string that remembers the previous
  character: an uppercase letter gets an underscore in front when a character precedes it
  and either that character is lowercase or the next one is, and is replaced by its
  lowercase form; every other character is kept.
\<close>

lemma camel_to_snake_from:
  "k \<le> length name \<Longrightarrow>
   concat (map (camel_to_snake_at name) [k..<length name]) =
   snake_walk (if k = 0 then None else Some (name ! (k - 1))) (drop k name)"
proof (induction "length name - k" arbitrary: k)
  case 0
  then show ?case by simp
next
  case (Suc d)
  then have lt: "k < length name" by simp
  have ih: "concat (map (camel_to_snake_at name) [Suc k..<length name]) =
      snake_walk (Some (name ! k)) (drop (Suc k) name)"
    using Suc.hyps(1)[of "Suc k"] Suc.hyps(2) lt by simp
  have d: "drop k name = name ! k # drop (Suc k) name"
    using lt by (simp add: Cons_nth_drop_Suc)
  have u: "[k..<length name] = k # [Suc k..<length name]"
    using lt by (simp add: upt_conv_Cons)
  have nxt: "(case drop (Suc k) name of [] \<Rightarrow> False | e # _ \<Rightarrow> islower e) =
      (k + 1 < length name \<and> islower (name ! (k + 1)))"
  proof (cases "Suc k < length name")
    case True
    then have "drop (Suc k) name = name ! Suc k # drop (Suc (Suc k)) name"
      by (simp add: Cons_nth_drop_Suc)
    with True show ?thesis by simp
  next
    case False
    then show ?thesis by simp
  qed
  show ?case
    unfolding u d
    by (simp add: ih nxt camel_to_snake_at_def del: upt.simps)
qed

text \<open>
  Claim C8, as the code has it. \<open>camel_to_snake\<close> puts an underscore in front of every
  uppercase letter that is not the first character of the string and that is preceded by a
  lowercase letter or followed by one, replaces every uppercase letter by its lowercase
  form and keeps every other character; an uppercase letter at position 0 never receives
  an underscore.
\<close>

theorem camel_to_snake_word_boundaries:
  "camel_to_snake name = snake_walk None name"
  using camel_to_snake_from[of 0 name] by (simp add: camel_to_snake_def)

text \<open>
  The claim as written asks for an underscore in front of a leading uppercase letter that
  is followed by a lowercase letter: \<open>claimed_camel_to_snake\<close> applies that rule at every
  position. The code returns \<open>foo\<close> for \<open>Foo\<close>, the rule \<open>_foo\<close>.
\<close>

theorem camel_to_snake_leading_upper_counterexample:
  "camel_to_snake ''Foo'' = ''foo'' \<and> claimed_camel_to_snake ''Foo'' = ''_foo'' \<and>
   camel_to_snake ''Foo'' \<noteq> claimed_camel_to_snake ''Foo''"
  by code_simp

subsection \<open>Name map\<close>

lemma sanitize_type_identifier_Type:
  "\<exists>base. sanitize_type_identifier name ''Type'' = Inr base"
  by (cases name) (simp_all add: sanitize_type_identifier_def Let_def)

lemma build_name_map_while_fresh:
  "build_name_map_while base used candidate suffix \<notin> set used"
proof (induction base used candidate suffix rule: build_name_map_while.induct)
  case (1 base used candidate suffix)
  then show ?case
    by (cases "candidate \<in> set used") (simp_all add: build_name_map_while.simps[of base used candidate])
qed

lemma build_name_map_loop_inv:
  "ran out \<subseteq> set used \<Longrightarrow> inj_on out (dom out) \<Longrightarrow>
   \<exists>m. build_name_map_loop names out used = Inr m \<and> dom m = dom out \<union> set names \<and>
       inj_on m (dom m)"
proof (induction names arbitrary: out used)
  case Nil
  then show ?case by simp
next
  case (Cons original rest)
  obtain base where base: "sanitize_type_identifier original ''Type'' = Inr base"
    using sanitize_type_identifier_Type by blast
  define candidate where "candidate = build_name_map_while base used base 2"
  have fresh: "candidate \<notin> set used"
    unfolding candidate_def by (rule build_name_map_while_fresh)
  let ?out = "out(original \<mapsto> candidate)"
  have r: "ran ?out \<subseteq> set (candidate # used)"
    using Cons.prems(1) by (auto simp: ran_def split: if_splits)
  have nc: "out k \<noteq> Some candidate" for k
    using Cons.prems(1) fresh by (auto simp: ran_def)
  have i: "inj_on ?out (dom ?out)"
    unfolding inj_on_def
  proof (intro ballI impI)
    fix x y
    assume x: "x \<in> dom ?out" and y: "y \<in> dom ?out" and e: "?out x = ?out y"
    show "x = y"
    proof (cases "x = original")
      case True
      then show ?thesis using e nc[of y] by (auto split: if_splits)
    next
      case False
      then have "y \<noteq> original" using e nc[of x] by (auto split: if_splits)
      with False x y e show ?thesis
        using Cons.prems(2) by (auto simp: inj_on_def dom_def)
    qed
  qed
  from Cons.IH[OF r i] obtain m where
    m: "build_name_map_loop rest ?out (candidate # used) = Inr m"
       "dom m = dom ?out \<union> set rest" "inj_on m (dom m)"
    by blast
  have "build_name_map_loop (original # rest) out used = Inr m"
    using m(1) by (simp add: base candidate_def)
  moreover have "dom m = dom out \<union> set (original # rest)"
    using m(2) by auto
  ultimately show ?case using m(3) by blast
qed

text \<open>
  Claim C5. For every list of definition names, \<open>build_name_map\<close> returns a map (it never
  raises), every input name has an entry, and no two distinct input names are mapped to the
  same target identifier.
\<close>

theorem build_name_map_injective:
  "\<exists>m. build_name_map definition_names = Inr m \<and> dom m = set definition_names \<and>
       inj_on m (set definition_names)"
  using build_name_map_loop_inv[of Map.empty "[]" "sort definition_names"]
  by (auto simp: build_name_map_def)

subsection \<open>Type renderer\<close>

lemma name_map_get_Some:
  "name_map ref_name = Some cpp \<Longrightarrow> name_map_get name_map ref_name = Inr cpp"
  using sanitize_type_identifier_Type[of ref_name]
  by (auto simp: name_map_get_def)

text \<open>
  Claim C2, as the code has it. A reference to the structure being rendered is rendered as
  \<open>std::shared_ptr<Name>\<close>, where \<open>Name\<close> is the name map's entry for the structure.
\<close>

theorem render_type_self_reference:
  "r_name_map r n = Some cpp \<Longrightarrow>
   render_type r (TReference n) owner (Some n) = Inr (''std::shared_ptr<'' @ cpp @ ''>'')"
  by (simp add: name_map_get_Some)

theorem render_type_self_reference_witness:
  "r_name_map node_renderer ''Node'' = Some ''Node'' \<and>
   render_type node_renderer (TReference ''Node'') ''Node.children.element'' (Some ''Node'') =
     Inr ''std::shared_ptr<Node>''"
  using render_type_self_reference[of node_renderer "''Node''" "''Node''" "''Node.children.element''"]
  by (simp add: node_renderer_def)

text \<open>
  The claim as written names the string \<open>shared_handle<Name>\<close>; inside \<open>Node\<close>, the
  reference to \<open>Node\<close> is rendered as \<open>std::shared_ptr<Node>\<close>.
\<close>

theorem render_type_self_reference_counterexample:
  "render_type node_renderer (TReference ''Node'') ''Node.children.element'' (Some ''Node'') \<noteq>
     Inr ''shared_handle<Node>''"
  by code_simp

lemma unique_loop_dedup_first:
  "unique_loop rendered unique (set unique) =
   unique @ filter (\<lambda>y. y \<notin> set unique) (dedup_first rendered)"
proof (induction rendered arbitrary: unique)
  case Nil
  then show ?case by simp
next
  case (Cons item rendered)
  show ?case
  proof (cases "item \<in> set unique")
    case True
    then have "filter (\<lambda>y. y \<notin> set unique) (filter (\<lambda>y. y \<noteq> item) (dedup_first rendered)) =
        filter (\<lambda>y. y \<notin> set unique) (dedup_first rendered)"
      by (auto intro: filter_cong)
    with True Cons.IH[of unique] show ?thesis by simp
  next
    case False
    have "filter (\<lambda>y. y \<notin> set (unique @ [item])) (dedup_first rendered) =
        filter (\<lambda>y. y \<notin> set unique) (filter (\<lambda>y. y \<noteq> item) (dedup_first rendered))"
      by (auto intro: filter_cong)
    with False Cons.IH[of "unique @ [item]"] show ?thesis by simp
  qed
qed

lemma unique_loop_start: "unique_loop rendered [] {} = dedup_first rendered"
  using unique_loop_dedup_first[of rendered "[]"] by simp

lemma render_or_loop_items:
  "render_or_loop r items owner cs =
     (case render_items r (filter (\<lambda>i. \<not> is_null_arm i) items) owner cs of
        Inl e \<Rightarrow> Inl e
      | Inr rendered \<Rightarrow> Inr (rendered, list_ex is_null_arm items))"
  by (induction items) (auto split: sum.splits)

lemma render_type_or: "render_type r (TOr items) owner cs = render_or r items owner cs"
  by (simp add: render_or_def)

text \<open>
  Claim C4. \<open>rendered\<close> are the renderings of the arms that are not \<open>null\<close>, in
  order, and \<open>dedup_first rendered\<close> the distinct ones in first-seen order. With a
  \<open>null\<close> arm and one distinct rendering \<open>t\<close> the result is \<open>nullable<t>\<close>; with a
  \<open>null\<close> arm and several, \<open>variant<null, t1, t2, ...>\<close>; with no \<open>null\<close> arm and no
  rendering, \<open>null\<close>; with no \<open>null\<close> arm and one distinct rendering, that rendering.
\<close>

theorem render_or_shapes:
  assumes "render_items r (filter (\<lambda>i. \<not> is_null_arm i) items) (owner @ ''.or_item'') cs =
             Inr rendered"
  shows "render_type r (TOr items) owner cs = render_or r items owner cs \<and>
    (list_ex is_null_arm items \<and> dedup_first rendered = [t] \<longrightarrow>
       render_or r items owner cs = Inr (''nullable<'' @ t @ ''>'')) \<and>
    (list_ex is_null_arm items \<and> 1 < length (dedup_first rendered) \<longrightarrow>
       render_or r items owner cs =
         Inr (''variant<'' @ join '', '' (''null'' # dedup_first rendered) @ ''>'')) \<and>
    (\<not> list_ex is_null_arm items \<and> dedup_first rendered = [] \<longrightarrow>
       render_or r items owner cs = Inr ''null'') \<and>
    (\<not> list_ex is_null_arm items \<and> dedup_first rendered = [t] \<longrightarrow>
       render_or r items owner cs = Inr t)"
proof -
  have ro: "render_or r items owner cs =
      Inr (render_or_result rendered (list_ex is_null_arm items))"
    using assms by (simp add: render_or_def render_or_loop_items)
  show ?thesis
    unfolding ro render_type_or
    by (auto simp: render_or_result_def unique_loop_start Let_def)
qed

theorem render_or_shapes_witness:
  "render_or node_renderer [TBase ''integer'', TBase ''null''] ''p'' None = Inr ''nullable<integer>'' \<and>
   render_or node_renderer [TBase ''integer'', TBase ''string'', TBase ''null'', TBase ''integer''] ''p'' None
     = Inr ''variant<null, integer, string>'' \<and>
   render_or node_renderer [] ''p'' None = Inr ''null'' \<and>
   render_or node_renderer [TBase ''integer'', TBase ''integer''] ''p'' None = Inr ''integer''"
  using
    render_or_shapes[of node_renderer "[TBase ''integer'', TBase ''null'']" "''p''" None
      "[''integer'']" "''integer''"]
    render_or_shapes[of node_renderer
      "[TBase ''integer'', TBase ''string'', TBase ''null'', TBase ''integer'']" "''p''" None
      "[''integer'', ''string'', ''integer'']" "''integer''"]
    render_or_shapes[of node_renderer "[]" "''p''" None "[]" "''integer''"]
    render_or_shapes[of node_renderer "[TBase ''integer'', TBase ''integer'']" "''p''" None
      "[''integer'', ''integer'']" "''integer''"]
  by simp

end
